theory Spec2Isabelle
  imports Main
begin

section \<open>Explorer items\<close>

text \<open>
  The explorer view of the interface (\<^verbatim>\<open>Explorer/View/index.tsx\<close> and
  \<^verbatim>\<open>Explorer/ViewContext.ts\<close>) reads explorer items, a tagged union with the
  variants \<^verbatim>\<open>Path\<close> and \<^verbatim>\<open>Object\<close>. The type declarations live in the client
  package; the fields below are the ones the view reads: \<^verbatim>\<open>item.id\<close>,
  \<^verbatim>\<open>is_dir\<close>, \<^verbatim>\<open>materialized_path\<close>, \<^verbatim>\<open>name\<close>, \<^verbatim>\<open>location_id\<close> and the nullable
  \<^verbatim>\<open>object_id\<close>. Numbers that the view handles are integer ids, modelled as
  \<^typ>\<open>int\<close>. The field \<^verbatim>\<open>id\<close> is \<open>fp_id\<close> in a file path and \<open>obj_id\<close> in an
  object, and the field \<^verbatim>\<open>top\<close> of the context is \<open>top_offset\<close>, since \<open>id\<close> and
  \<open>top\<close> are constants of HOL.
\<close>

record file_path =
  fp_id :: int
  is_dir :: bool
  materialized_path :: string
  name :: string
  location_id :: int
  object_id :: "int option"

record object_rec =
  obj_id :: int

datatype ExplorerItem = Path file_path | Object object_rec

text \<open>\<^verbatim>\<open>item.item.id\<close>: both variants carry an id.\<close>

fun item_id :: "ExplorerItem \<Rightarrow> int" where
  "item_id (Path fp) = fp_id fp"
| "item_id (Object ob) = obj_id ob"

text \<open>
  Modelled from the spec: \<^verbatim>\<open>isPath\<close> is imported from the client package; it is the
  type guard of the \<^verbatim>\<open>Path\<close> variant, after which the view reads \<^verbatim>\<open>data.item.is_dir\<close>.
\<close>

fun isPath :: "ExplorerItem \<Rightarrow> bool" where
  "isPath (Path fp) = True"
| "isPath (Object ob) = False"

subsection \<open>JavaScript conversions used by the view\<close>

text \<open>
  A number used as a condition is falsy exactly when it is zero; \<^verbatim>\<open>null\<close> is falsy.
  This is the test \<^verbatim>\<open>data.item.object_id\<close> of the double-click handler.
\<close>

fun js_truthy_id :: "int option \<Rightarrow> bool" where
  "js_truthy_id None = False"
| "js_truthy_id (Some n) = (n \<noteq> 0)"

definition digit_char :: "nat \<Rightarrow> char" where
  "digit_char d = ''0123456789'' ! (d mod 10)"

function string_of_nat :: "nat \<Rightarrow> string" where
  "string_of_nat n =
     (if n < 10 then [digit_char n]
      else string_of_nat (n div 10) @ [digit_char (n mod 10)])"
  by pat_completeness auto
termination
  by (relation "measure (\<lambda>n. n)") auto

declare string_of_nat.simps [simp del]

text \<open>An integer inside a template literal prints in decimal.\<close>

definition js_string_of_int :: "int \<Rightarrow> string" where
  "js_string_of_int i =
     (if i < 0 then CHR ''-'' # string_of_nat (nat (- i)) else string_of_nat (nat i))"

section \<open>The entry wrapper: double click\<close>

text \<open>
  What a double click issues, in the order the handler issues it: a navigation
  (\<^verbatim>\<open>navigate({pathname, search})\<close>, the search being the parameters given to
  \<^verbatim>\<open>createSearchParams\<close>), the mutation \<^verbatim>\<open>files.updateAccessTime\<close> with an object id,
  or the platform's \<^verbatim>\<open>openFilePath(library.uuid, filePath.id)\<close>. None of the three is
  awaited.
\<close>

datatype effect =
    Navigate string "(string \<times> string) list"
  | UpdateAccessTime int
  | OpenFilePath string int

text \<open>
  What the component \<^verbatim>\<open>ViewItem\<close> has read from its hooks when the handler runs:
  \<^verbatim>\<open>library.uuid\<close>, whether the platform provides \<^verbatim>\<open>openFilePath\<close>, the
  \<^verbatim>\<open>openOnDoubleClick\<close> setting and the store's \<^verbatim>\<open>isRenaming\<close>. The helper
  \<^verbatim>\<open>getItemFilePath\<close> comes from \<^verbatim>\<open>Explorer/util\<close>; it is a field of the
  environment here, so that the handler is described for every such helper.
\<close>

record view_item_env =
  library_uuid :: string
  openFilePath :: bool
  openOnDoubleClick :: bool
  isRenaming :: bool
  getItemFilePath :: "ExplorerItem \<Rightarrow> file_path option"

text \<open>
  \<^verbatim>\<open>${getItemFilePath(data)?.location_id}\<close>: the optional chain gives \<^verbatim>\<open>undefined\<close>
  when there is no file path, which the template prints as such.
\<close>

definition location_segment :: "file_path option \<Rightarrow> string" where
  "location_segment r =
     (case r of None \<Rightarrow> ''undefined'' | Some fp \<Rightarrow> js_string_of_int (location_id fp))"

text \<open>
  Lines 59 to 61: \<^verbatim>\<open>if (data.type === 'Path' && data.item.object_id)\<close> then
  \<^verbatim>\<open>updateAccessTime.mutate(data.item.object_id)\<close>.
\<close>

fun access_time_update :: "ExplorerItem \<Rightarrow> effect list" where
  "access_time_update (Path fp) =
     (case object_id fp of
        None \<Rightarrow> []
      | Some oid \<Rightarrow> if js_truthy_id (Some oid) then [UpdateAccessTime oid] else [])"
| "access_time_update (Object ob) = []"

text \<open>
  Lines 53 to 64, the \<^verbatim>\<open>else if\<close> of the handler. \<^verbatim>\<open>filePath\<close> is
  \<^verbatim>\<open>getItemFilePath(data)\<close>, an object or \<^verbatim>\<open>undefined\<close>.
\<close>

definition open_branch :: "view_item_env \<Rightarrow> ExplorerItem \<Rightarrow> effect list" where
  "open_branch env data =
     (case getItemFilePath env data of
        None \<Rightarrow> []
      | Some filePath \<Rightarrow>
          if openFilePath env \<and> openOnDoubleClick env \<and> \<not> isRenaming env then
            access_time_update data @ [OpenFilePath (library_uuid env) (fp_id filePath)]
          else [])"

text \<open>
  The handler. \<^verbatim>\<open>isPath(data) && data.item.is_dir\<close> reads \<^verbatim>\<open>is_dir\<close> of a
  \<^verbatim>\<open>Path\<close> item only.
\<close>

fun onDoubleClick :: "view_item_env \<Rightarrow> ExplorerItem \<Rightarrow> effect list" where
  "onDoubleClick env (Path fp) =
     (if isPath (Path fp) \<and> is_dir fp then
        [Navigate
           (''/'' @ library_uuid env @ ''/location/''
              @ location_segment (getItemFilePath env (Path fp)))
           [(''path'', materialized_path fp @ name fp @ ''/'')]]
      else open_branch env (Path fp))"
| "onDoubleClick env (Object ob) = open_branch env (Object ob)"

text \<open>
  Modelled from the spec: a helper \<^verbatim>\<open>getItemFilePath\<close> as the spec's data model has
  it, where a \<^verbatim>\<open>Path\<close> item is its own file-path record (it carries the
  \<^verbatim>\<open>location_id\<close> of the owning location). The \<^verbatim>\<open>Object\<close> variant of this model
  carries no file path. It instantiates the environment at concrete inputs.
\<close>

fun path_item_file_path :: "ExplorerItem \<Rightarrow> file_path option" where
  "path_item_file_path (Path fp) = Some fp"
| "path_item_file_path (Object ob) = None"

text \<open>
  A directory entry is an item that passes the first test of the handler: a
  \<^verbatim>\<open>Path\<close> item whose \<^verbatim>\<open>is_dir\<close> is true.
\<close>

fun directory_item :: "ExplorerItem \<Rightarrow> bool" where
  "directory_item (Path fp) = is_dir fp"
| "directory_item (Object ob) = False"

section \<open>The shared view context\<close>

text \<open>
  \<^verbatim>\<open>ExplorerViewSelection = number | number[]\<close>; the field \<^verbatim>\<open>selected\<close> is optional.
\<close>

datatype ExplorerViewSelection = Scalar int | Array "int list"

fun Array_isArray :: "ExplorerViewSelection option \<Rightarrow> bool" where
  "Array_isArray None = False"
| "Array_isArray (Some (Scalar n)) = False"
| "Array_isArray (Some (Array ids)) = True"

text \<open>
  React nodes as far as the view tells them apart: \<^verbatim>\<open>isValidElement\<close> holds of an
  element only, and a node used as a condition is falsy when it is \<^verbatim>\<open>null\<close>,
  \<^verbatim>\<open>undefined\<close>, \<^verbatim>\<open>false\<close>, \<^verbatim>\<open>0\<close> or the empty string. An element or a portal is
  named by a string; a number is an integer here.
\<close>

datatype ReactNode =
    RElement string
  | RText string
  | RNumber int
  | RBool bool
  | RArray "ReactNode list"
  | RPortal string
  | RNull
  | RUndefined

fun isValidElement :: "ReactNode \<Rightarrow> bool" where
  "isValidElement (RElement el) = True"
| "isValidElement n = False"

fun js_truthy_node :: "ReactNode \<Rightarrow> bool" where
  "js_truthy_node (RElement el) = True"
| "js_truthy_node (RText s) = (s \<noteq> [])"
| "js_truthy_node (RNumber n) = (n \<noteq> 0)"
| "js_truthy_node (RBool b) = b"
| "js_truthy_node (RArray ns) = True"
| "js_truthy_node (RPortal p) = True"
| "js_truthy_node RNull = False"
| "js_truthy_node RUndefined = False"

datatype padding = PaddingNumber int | PaddingXY "int option" "int option"

text \<open>
  The properties that the caller gives for the context (\<^verbatim>\<open>contextProps\<close>): the fields
  of \<^verbatim>\<open>ExplorerViewContext\<close> without the derived ones. References and callbacks are
  opaque handles. A \<^verbatim>\<open>setIsContextMenuOpen\<close> given by the caller is overwritten by the
  later key of the object literal, so it is not a field here.
\<close>

record context_props =
  items :: "ExplorerItem list option"
  scrollRef :: nat
  selected :: "ExplorerViewSelection option"
  onSelectedChange :: "nat option"
  overscan :: "int option"
  onLoadMore :: "nat option"
  rowsBeforeLoadMore :: "int option"
  top_offset :: "int option"
  contextMenu :: "ReactNode option"
  padding :: "padding option"

text \<open>
  The value given to \<^verbatim>\<open>ViewContext.Provider\<close> (lines 141 to 148): the caller's
  properties, then \<^verbatim>\<open>multiSelect\<close> and \<^verbatim>\<open>selectable\<close>. Its
  \<^verbatim>\<open>setIsContextMenuOpen\<close> is always the setter of the dispatcher's own state.
\<close>

record ExplorerViewContext =
  props :: context_props
  multiSelect :: bool
  selectable :: bool

definition ViewContext_value :: "context_props \<Rightarrow> bool \<Rightarrow> ExplorerViewContext" where
  "ViewContext_value contextProps isContextMenuOpen =
     \<lparr>props = contextProps,
      multiSelect = Array_isArray (selected contextProps),
      selectable = (\<not> isContextMenuOpen)\<rparr>"

text \<open>
  \<^verbatim>\<open>const [isContextMenuOpen, setIsContextMenuOpen] = useState(false)\<close>: the state starts
  false and the setter replaces it. Every \<^verbatim>\<open>ViewItem\<close> passes the setter of the
  context as \<^verbatim>\<open>onOpenChange\<close> of its context menu, so each report of a menu opening
  or closing is one call of the setter.
\<close>

definition isContextMenuOpen_initial :: bool where
  "isContextMenuOpen_initial = False"

definition setIsContextMenuOpen :: "bool \<Rightarrow> bool \<Rightarrow> bool" where
  "setIsContextMenuOpen isOpen state = isOpen"

fun onOpenChange_reports :: "bool list \<Rightarrow> bool \<Rightarrow> bool" where
  "onOpenChange_reports [] state = state"
| "onOpenChange_reports (isOpen # rest) state =
     onOpenChange_reports rest (setIsContextMenuOpen isOpen state)"

subsection \<open>Reading the context\<close>

text \<open>
  \<^verbatim>\<open>createContext<ExplorerViewContext | null>(null)\<close>: \<^verbatim>\<open>useContext\<close> gives the value of
  the nearest enclosing provider, and the default \<^verbatim>\<open>null\<close> when there is none. The
  enclosing providers are listed nearest first.
\<close>

definition ViewContext_default :: "ExplorerViewContext option" where
  "ViewContext_default = None"

fun useContext :: "'a \<Rightarrow> 'a list \<Rightarrow> 'a" where
  "useContext dflt [] = dflt"
| "useContext dflt (v # outer) = v"

datatype error = Error string

definition useExplorerViewContext ::
  "ExplorerViewContext option list \<Rightarrow> error + ExplorerViewContext" where
  "useExplorerViewContext providers =
     (case useContext ViewContext_default providers of
        None \<Rightarrow> Inl (Error ''ViewContext.Provider not found!'')
      | Some ctx \<Rightarrow> Inr ctx)"

section \<open>The view dispatcher\<close>

subsection \<open>The quick-view key\<close>

text \<open>
  The handler registered with \<^verbatim>\<open>useKey('Space', ...)\<close> (lines 93 to 111). It acts on
  the key event and on \<^verbatim>\<open>getExplorerStore().quickViewObject\<close>, an item or
  \<^verbatim>\<open>null\<close>. The id it looks for is \<^verbatim>\<open>selected[0]\<close> of an array (\<^verbatim>\<open>undefined\<close> when
  the array is empty) and \<^verbatim>\<open>selected\<close> itself otherwise; \<^verbatim>\<open>===\<close> of an id with
  \<^verbatim>\<open>undefined\<close> is false. \<^verbatim>\<open>items?.find\<close> gives the first item that passes the
  test, and \<^verbatim>\<open>undefined\<close> when there is none or \<^verbatim>\<open>items\<close> is \<^verbatim>\<open>null\<close>.
\<close>

record key_event =
  defaultPrevented :: bool

definition preventDefault :: "key_event \<Rightarrow> key_event" where
  "preventDefault e = e\<lparr>defaultPrevented := True\<rparr>"

fun first_selected :: "ExplorerViewSelection option \<Rightarrow> int option" where
  "first_selected None = None"
| "first_selected (Some (Scalar n)) = Some n"
| "first_selected (Some (Array [])) = None"
| "first_selected (Some (Array (n # ns))) = Some n"

definition selectedItem :: "context_props \<Rightarrow> ExplorerItem option" where
  "selectedItem contextProps =
     (case items contextProps of
        None \<Rightarrow> None
      | Some its \<Rightarrow>
          List.find (\<lambda>item. Some (item_id item) = first_selected (selected contextProps)) its)"

definition Space_handler ::
  "context_props \<Rightarrow> key_event \<times> ExplorerItem option \<Rightarrow> key_event \<times> ExplorerItem option" where
  "Space_handler contextProps st =
     (case st of (e, quickViewObject) \<Rightarrow>
        (preventDefault e,
         (if quickViewObject = None then
            (case selectedItem contextProps of
               Some item \<Rightarrow> Some item
             | None \<Rightarrow> quickViewObject)
          else None)))"

subsection \<open>The empty notice\<close>

datatype ExplorerLayoutMode = LayoutGrid | LayoutMedia | LayoutColumns | LayoutRows

text \<open>
  The icon components of \<^verbatim>\<open>phosphor-react\<close> that the view imports, and any other
  one a caller may pass.
\<close>

datatype Icon = GridFour | MonitorPlay | Columns | Rows | OtherIcon string

text \<open>\<^verbatim>\<open>icon?: Icon | ReactNode\<close>\<close>

datatype icon_prop = IconComponent Icon | IconNode ReactNode

fun js_truthy_icon :: "icon_prop \<Rightarrow> bool" where
  "js_truthy_icon (IconComponent c) = True"
| "js_truthy_icon (IconNode n) = js_truthy_node n"

text \<open>
  \<^verbatim>\<open>emptyNotice?: JSX.Element | { icon?: Icon | ReactNode; message?: ReactNode } | null\<close>.
  In the object, a key may be absent (\<^verbatim>\<open>'icon' in emptyNotice\<close> is false) or
  present with any value, \<^verbatim>\<open>undefined\<close> included.
\<close>

datatype emptyNotice_prop =
    NoticeUndefined
  | NoticeNull
  | NoticeElement string
  | NoticeObject "icon_prop option" "ReactNode option"

text \<open>
  What the place of the icon holds: the caller's element as it is, or
  \<^verbatim>\<open><Icon size={100} opacity={0.3} />\<close> for the \<^verbatim>\<open>Icon\<close> that \<^verbatim>\<open>emptyNoticeIcon\<close> chose.
\<close>

datatype icon_slot =
    IconVerbatim icon_prop
  | IconJsx icon_prop "(string \<times> string) list"

fun icon_isValidElement :: "icon_prop \<Rightarrow> bool" where
  "icon_isValidElement (IconComponent c) = False"
| "icon_isValidElement (IconNode n) = isValidElement n"

fun layout_icon :: "ExplorerLayoutMode \<Rightarrow> Icon" where
  "layout_icon LayoutGrid = GridFour"
| "layout_icon LayoutMedia = MonitorPlay"
| "layout_icon LayoutColumns = Columns"
| "layout_icon LayoutRows = Rows"

text \<open>
  Lines 113 to 134; the argument is optional. The value is the JSX as written, whose
  type is the argument when it is truthy. React mounts it when the type is a
  component.
\<close>

definition emptyNoticeIcon :: "ExplorerLayoutMode \<Rightarrow> icon_prop option \<Rightarrow> icon_slot" where
  "emptyNoticeIcon layout icon =
     IconJsx
       (case icon of
          None \<Rightarrow> IconComponent (layout_icon layout)
        | Some ic \<Rightarrow> if \<not> js_truthy_icon ic then IconComponent (layout_icon layout) else ic)
       [(''size'', ''100''), (''opacity'', ''0.3'')]"

text \<open>Lines 158 to 162 and 165 to 167, for an \<^verbatim>\<open>emptyNotice\<close> that is neither
  \<^verbatim>\<open>null\<close> nor an element.\<close>

fun notice_icon :: "ExplorerLayoutMode \<Rightarrow> emptyNotice_prop \<Rightarrow> icon_slot" where
  "notice_icon layout (NoticeObject (Some ic) msg) =
     (if icon_isValidElement ic then IconVerbatim ic
      else emptyNoticeIcon layout (Some ic))"
| "notice_icon layout emptyNotice = emptyNoticeIcon layout None"

fun notice_message :: "emptyNotice_prop \<Rightarrow> ReactNode" where
  "notice_message (NoticeObject ic (Some msg)) = msg"
| "notice_message emptyNotice = RText ''This list is empty''"

subsection \<open>Rendering\<close>

datatype renderer = GridView | ListView | MediaView

text \<open>Lines 150 to 152: the children of the provider.\<close>

definition renderers :: "ExplorerLayoutMode \<Rightarrow> renderer list" where
  "renderers layout =
     (if layout = LayoutGrid then [GridView] else [])
     @ (if layout = LayoutRows then [ListView] else [])
     @ (if layout = LayoutMedia then [MediaView] else [])"

text \<open>
  What the dispatcher puts inside its outer \<^verbatim>\<open>div\<close>: the provider with the renderers,
  or the second arm of the conditional of line 138, which is \<^verbatim>\<open>null\<close>, the caller's
  element, or the box with the icon first and the paragraph of the message below.
\<close>

datatype empty_state =
    RenderNull
  | RenderElement string
  | NoticeBox icon_slot ReactNode

datatype view_output =
    Provider ExplorerViewContext "renderer list"
  | EmptyState empty_state

definition ExplorerView ::
  "ExplorerLayoutMode \<Rightarrow> emptyNotice_prop \<Rightarrow> context_props \<Rightarrow> bool \<Rightarrow> view_output" where
  "ExplorerView layout emptyNotice contextProps isContextMenuOpen =
     (if items contextProps = None
         \<or> (case items contextProps of None \<Rightarrow> False | Some its \<Rightarrow> length its > 0)
      then Provider (ViewContext_value contextProps isContextMenuOpen) (renderers layout)
      else if emptyNotice = NoticeNull then EmptyState RenderNull
      else (case emptyNotice of
              NoticeElement el \<Rightarrow> EmptyState (RenderElement el)
            | _ \<Rightarrow> EmptyState (NoticeBox (notice_icon layout emptyNotice)
                                 (notice_message emptyNotice))))"

section \<open>Concrete inputs\<close>

text \<open>
  A library, a directory \<^verbatim>\<open>reports\<close> under \<^verbatim>\<open>/docs/\<close> in location 7, a file with an
  object, and a list of three items.
\<close>

definition example_env :: view_item_env where
  "example_env =
     \<lparr>library_uuid = ''lib'', openFilePath = True, openOnDoubleClick = True,
      isRenaming = False, getItemFilePath = path_item_file_path\<rparr>"

definition example_dir :: file_path where
  "example_dir =
     \<lparr>fp_id = 3, is_dir = True, materialized_path = ''/docs/'', name = ''reports'',
      location_id = 7, object_id = None\<rparr>"

definition example_file :: file_path where
  "example_file =
     \<lparr>fp_id = 4, is_dir = False, materialized_path = ''/docs/'', name = ''a.txt'',
      location_id = 7, object_id = Some 12\<rparr>"

definition example_props :: context_props where
  "example_props =
     \<lparr>items = Some [Path example_dir, Path example_file, Object \<lparr>obj_id = 4\<rparr>],
      scrollRef = 0, selected = Some (Array [4, 3]), onSelectedChange = None,
      overscan = None, onLoadMore = None, rowsBeforeLoadMore = None, top_offset = None,
      contextMenu = None, padding = None\<rparr>"

text \<open>
  An \<^verbatim>\<open>Object\<close> item, a persisted object with id 9, and an environment whose helper
  resolves every item to the example file, as for an object whose file path is that
  file.
\<close>

definition example_object :: ExplorerItem where
  "example_object = Object \<lparr>obj_id = 9\<rparr>"

fun resolve_example_file :: "ExplorerItem \<Rightarrow> file_path option" where
  "resolve_example_file data = Some example_file"

definition example_object_env :: view_item_env where
  "example_object_env =
     \<lparr>library_uuid = ''lib'', openFilePath = True, openOnDoubleClick = True,
      isRenaming = False, getItemFilePath = resolve_example_file\<rparr>"

section \<open>Properties of the double click\<close>

text \<open>An item that is not a directory takes the second arm of the handler.\<close>

lemma onDoubleClick_not_directory:
  "\<not> directory_item data \<Longrightarrow> onDoubleClick env data = open_branch env data"
  by (cases data) simp_all

text \<open>What \<^verbatim>\<open>Array.prototype.find\<close> returns: the first element that passes.\<close>

lemma find_first_match:
  "P x \<Longrightarrow> \<forall>y\<in>set pre. \<not> P y \<Longrightarrow> List.find P (pre @ x # post) = Some x"
  by (induction pre) simp_all

text \<open>
  C1, as stated, at a concrete input: an \<^verbatim>\<open>Object\<close> item, which is a persisted object
  (id 9), with the four conditions true and a file path resolved for it. The test of
  line 59 asks for \<^verbatim>\<open>data.type === 'Path'\<close>, so the open request is issued alone: no
  access-time update is issued for the object.
\<close>

theorem C1_object_item_counterexample:
  "\<not> directory_item example_object
   \<and> openFilePath example_object_env
   \<and> getItemFilePath example_object_env example_object = Some example_file
   \<and> openOnDoubleClick example_object_env
   \<and> \<not> isRenaming example_object_env
   \<and> item_id example_object = 9
   \<and> onDoubleClick example_object_env example_object = [OpenFilePath ''lib'' 4]
   \<and> UpdateAccessTime 9 \<notin> set (onDoubleClick example_object_env example_object)"
  by (simp add: example_object_env_def example_object_def example_file_def open_branch_def)

text \<open>
  C1, amended: for every double click on an item that is not a directory, with the
  platform's \<^verbatim>\<open>openFilePath\<close> available, a file path resolved for the item,
  \<^verbatim>\<open>openOnDoubleClick\<close> enabled and no rename in progress: if the item is a \<^verbatim>\<open>Path\<close>
  item whose \<^verbatim>\<open>object_id\<close> is present, a non-zero id, the handler issues exactly two
  requests, first the access-time update for that object id, then the open-file
  request with the library's uuid and the id of the resolved file path; if the item is
  an \<^verbatim>\<open>Object\<close> item, the handler issues the open-file request alone.
\<close>

theorem C1_access_time_update_before_open:
  assumes "\<not> directory_item data"
    and "openFilePath env"
    and "getItemFilePath env data = Some filePath"
    and "openOnDoubleClick env"
    and "\<not> isRenaming env"
  shows "(\<forall>fp oid. data = Path fp \<and> object_id fp = Some oid \<and> oid \<noteq> 0 \<longrightarrow>
            onDoubleClick env data
              = [UpdateAccessTime oid, OpenFilePath (library_uuid env) (fp_id filePath)])
         \<and> (\<forall>ob. data = Object ob \<longrightarrow>
              onDoubleClick env data = [OpenFilePath (library_uuid env) (fp_id filePath)])"
  using assms by (auto simp: open_branch_def)

text \<open>
  C1 at the example file, a \<^verbatim>\<open>Path\<close> item whose object id is 12, and at the example
  object.
\<close>

theorem C1_access_time_update_before_open_witness:
  "\<not> directory_item (Path example_file)
   \<and> openFilePath example_env
   \<and> getItemFilePath example_env (Path example_file) = Some example_file
   \<and> openOnDoubleClick example_env
   \<and> \<not> isRenaming example_env
   \<and> object_id example_file = Some 12
   \<and> (12::int) \<noteq> 0
   \<and> onDoubleClick example_env (Path example_file)
       = [UpdateAccessTime 12, OpenFilePath ''lib'' 4]
   \<and> \<not> directory_item example_object
   \<and> openFilePath example_object_env
   \<and> getItemFilePath example_object_env example_object = Some example_file
   \<and> openOnDoubleClick example_object_env
   \<and> \<not> isRenaming example_object_env
   \<and> onDoubleClick example_object_env example_object = [OpenFilePath ''lib'' 4]"
proof -
  have h: "\<not> directory_item (Path example_file)" "openFilePath example_env"
    "getItemFilePath example_env (Path example_file) = Some example_file"
    "openOnDoubleClick example_env" "\<not> isRenaming example_env"
    by (simp_all add: example_env_def example_file_def)
  have v: "object_id example_file = Some 12" "(12::int) \<noteq> 0"
    by (simp_all add: example_file_def)
  have g: "\<not> directory_item example_object" "openFilePath example_object_env"
    "getItemFilePath example_object_env example_object = Some example_file"
    "openOnDoubleClick example_object_env" "\<not> isRenaming example_object_env"
    by (simp_all add: example_object_env_def example_object_def)
  have "onDoubleClick example_env (Path example_file)
          = [UpdateAccessTime 12, OpenFilePath (library_uuid example_env) (fp_id example_file)]"
    using C1_access_time_update_before_open [OF h] v by blast
  then have p: "onDoubleClick example_env (Path example_file)
          = [UpdateAccessTime 12, OpenFilePath ''lib'' 4]"
    by (simp add: example_env_def example_file_def)
  have "onDoubleClick example_object_env example_object
          = [OpenFilePath (library_uuid example_object_env) (fp_id example_file)]"
    using C1_access_time_update_before_open [OF g] by (simp add: example_object_def)
  then have q: "onDoubleClick example_object_env example_object = [OpenFilePath ''lib'' 4]"
    by (simp add: example_object_env_def example_file_def)
  from h v g p q show ?thesis by simp
qed

text \<open>
  C2: for every double click on an item that is not a directory, if one of the four
  conditions is false (no \<^verbatim>\<open>openFilePath\<close> on the platform, no file path resolved for
  the item, \<^verbatim>\<open>openOnDoubleClick\<close> disabled, or a rename in progress), the handler
  issues nothing: no navigation, no access-time update and no open-file request. The
  handler has no statement that throws, and the model is a total function whose value
  is the list of what was issued.
\<close>

theorem C2_failed_condition_is_silent:
  assumes "\<not> directory_item data"
    and "\<not> openFilePath env \<or> getItemFilePath env data = None
           \<or> \<not> openOnDoubleClick env \<or> isRenaming env"
  shows "onDoubleClick env data = []"
proof -
  have "open_branch env data = []"
    using assms(2) by (auto simp: open_branch_def split: option.splits)
  then show ?thesis
    using assms(1) by (simp add: onDoubleClick_not_directory)
qed

text \<open>C2 at the example file with the preference disabled.\<close>

theorem C2_failed_condition_is_silent_witness:
  "\<not> directory_item (Path example_file)
   \<and> openOnDoubleClick (example_env\<lparr>openOnDoubleClick := False\<rparr>) = False
   \<and> onDoubleClick (example_env\<lparr>openOnDoubleClick := False\<rparr>) (Path example_file) = []"
proof -
  have a: "\<not> directory_item (Path example_file)"
    by (simp add: example_file_def)
  have b: "\<not> openFilePath (example_env\<lparr>openOnDoubleClick := False\<rparr>)
        \<or> getItemFilePath (example_env\<lparr>openOnDoubleClick := False\<rparr>) (Path example_file) = None
        \<or> \<not> openOnDoubleClick (example_env\<lparr>openOnDoubleClick := False\<rparr>)
        \<or> isRenaming (example_env\<lparr>openOnDoubleClick := False\<rparr>)"
    by simp
  from C2_failed_condition_is_silent [OF a b] a show ?thesis by simp
qed

text \<open>
  C3: for every double click on a directory (a \<^verbatim>\<open>Path\<close> item whose \<^verbatim>\<open>is_dir\<close> is
  true), where \<^verbatim>\<open>getItemFilePath\<close> resolves the item to its own record, exactly one
  request is issued: a navigation to \<^verbatim>\<open>/<library uuid>/location/<location_id>\<close> of the
  directory's location, whose \<^verbatim>\<open>path\<close> parameter is the materialized path, then the
  name, then \<^verbatim>\<open>/\<close>.
\<close>

theorem C3_directory_navigates:
  assumes "is_dir fp"
    and "getItemFilePath env (Path fp) = Some fp"
  shows "onDoubleClick env (Path fp)
           = [Navigate
                (''/'' @ library_uuid env @ ''/location/'' @ js_string_of_int (location_id fp))
                [(''path'', materialized_path fp @ name fp @ ''/'')]]"
  using assms by (simp add: location_segment_def)

text \<open>
  C3 at the example of the specification: materialized path \<^verbatim>\<open>/docs/\<close>, name
  \<^verbatim>\<open>reports\<close>, location 7.
\<close>

theorem C3_directory_navigates_witness:
  "is_dir example_dir
   \<and> getItemFilePath example_env (Path example_dir) = Some example_dir
   \<and> materialized_path example_dir = ''/docs/''
   \<and> name example_dir = ''reports''
   \<and> location_id example_dir = 7
   \<and> onDoubleClick example_env (Path example_dir)
       = [Navigate ''/lib/location/7'' [(''path'', ''/docs/reports/'')]]"
proof -
  have a: "is_dir example_dir"
    by (simp add: example_dir_def)
  have b: "getItemFilePath example_env (Path example_dir) = Some example_dir"
    by (simp add: example_env_def)
  have s: "js_string_of_int 7 = ''7''"
    by (simp add: js_string_of_int_def string_of_nat.simps digit_char_def)
  have "onDoubleClick example_env (Path example_dir)
       = [Navigate ''/lib/location/7'' [(''path'', ''/docs/reports/'')]]"
    using C3_directory_navigates [OF a b] s
    by (simp add: example_env_def example_dir_def)
  with a b show ?thesis by (simp add: example_dir_def)
qed

text \<open>
  C10: for every directory item, whatever the platform's \<^verbatim>\<open>openFilePath\<close>
  capability, the \<^verbatim>\<open>openOnDoubleClick\<close> preference and the rename state are, the
  double click issues the navigation request and nothing else; the request does not
  depend on the three. It is issued too when no file path resolves for the item (its
  location segment is then \<^verbatim>\<open>undefined\<close>).
\<close>

theorem C10_directory_ignores_gates:
  assumes "is_dir fp"
  shows "onDoubleClick
           (env\<lparr>openFilePath := capability, openOnDoubleClick := preference,
                isRenaming := renaming\<rparr>) (Path fp)
           = [Navigate
                (''/'' @ library_uuid env @ ''/location/''
                   @ location_segment (getItemFilePath env (Path fp)))
                [(''path'', materialized_path fp @ name fp @ ''/'')]]"
  using assms by simp

text \<open>C10 at the example directory with every gate closed.\<close>

theorem C10_directory_ignores_gates_witness:
  "is_dir example_dir
   \<and> onDoubleClick
       (example_env\<lparr>openFilePath := False, openOnDoubleClick := False, isRenaming := True\<rparr>)
       (Path example_dir)
       = [Navigate ''/lib/location/7'' [(''path'', ''/docs/reports/'')]]"
proof -
  have a: "is_dir example_dir"
    by (simp add: example_dir_def)
  have s: "js_string_of_int 7 = ''7''"
    by (simp add: js_string_of_int_def string_of_nat.simps digit_char_def)
  have "onDoubleClick
       (example_env\<lparr>openFilePath := False, openOnDoubleClick := False, isRenaming := True\<rparr>)
       (Path example_dir)
       = [Navigate ''/lib/location/7'' [(''path'', ''/docs/reports/'')]]"
    using C10_directory_ignores_gates [OF a, where env = example_env and capability = False
        and preference = False and renaming = True] s
    by (simp add: example_env_def example_dir_def location_segment_def)
  with a show ?thesis by simp
qed

section \<open>Properties of the dispatcher\<close>

text \<open>After any reports, the state is the last value reported.\<close>

lemma onOpenChange_reports_last:
  "onOpenChange_reports (reports @ [isOpen]) state = isOpen"
  by (induction reports arbitrary: state) (simp_all add: setIsContextMenuOpen_def)

text \<open>The item that the quick-view handler finds.\<close>

lemma selectedItem_first_match:
  assumes "items contextProps = Some (pre @ item # post)"
    and "first_selected (selected contextProps) = Some (item_id item)"
    and "\<forall>x\<in>set pre. item_id x \<noteq> item_id item"
  shows "selectedItem contextProps = Some item"
  using assms by (simp add: selectedItem_def find_first_match)

lemma selectedItem_no_match:
  assumes "\<forall>its. items contextProps = Some its \<longrightarrow>
             (\<forall>x\<in>set its. Some (item_id x) \<noteq> first_selected (selected contextProps))"
  shows "selectedItem contextProps = None"
  using assms by (auto simp: selectedItem_def find_None_iff split: option.splits)

text \<open>
  C4: in every state, the quick-view key handler suppresses the default effect of the
  key. The id it looks for is the first element of a list-shaped selection and the
  value itself of a scalar one. If the quick-view slot is empty, the slot becomes the
  first item of the current collection whose id is that id; if the slot is not empty,
  it is cleared, whatever the selection is; if the slot is empty and no item of the
  collection has that id (also when the collection is \<^verbatim>\<open>null\<close>, or the selection is
  absent or an empty list), the slot stays as it was.
\<close>

theorem C4_quick_view_toggle:
  "defaultPrevented (fst (Space_handler contextProps (e, slot)))
   \<and> first_selected (Some (Array (a # rest))) = Some a
   \<and> first_selected (Some (Scalar a)) = Some a
   \<and> (slot = None
        \<longrightarrow> items contextProps = Some (pre @ item # post)
        \<longrightarrow> first_selected (selected contextProps) = Some (item_id item)
        \<longrightarrow> (\<forall>x\<in>set pre. item_id x \<noteq> item_id item)
        \<longrightarrow> snd (Space_handler contextProps (e, slot)) = Some item)
   \<and> (slot \<noteq> None \<longrightarrow> snd (Space_handler contextProps (e, slot)) = None)
   \<and> (slot = None
        \<longrightarrow> (\<forall>its. items contextProps = Some its \<longrightarrow>
               (\<forall>x\<in>set its. Some (item_id x) \<noteq> first_selected (selected contextProps)))
        \<longrightarrow> snd (Space_handler contextProps (e, slot)) = slot)"
proof -
  have prevented: "defaultPrevented (fst (Space_handler contextProps (e, slot)))"
    by (simp add: Space_handler_def preventDefault_def)
  have found: "snd (Space_handler contextProps (e, slot)) = Some item"
    if "slot = None" "items contextProps = Some (pre @ item # post)"
      "first_selected (selected contextProps) = Some (item_id item)"
      "\<forall>x\<in>set pre. item_id x \<noteq> item_id item"
    using that selectedItem_first_match [of contextProps pre item post]
    by (simp add: Space_handler_def)
  have cleared: "snd (Space_handler contextProps (e, slot)) = None" if "slot \<noteq> None"
    using that by (cases slot) (simp_all add: Space_handler_def)
  have unchanged: "snd (Space_handler contextProps (e, slot)) = slot"
    if "slot = None"
      "\<forall>its. items contextProps = Some its \<longrightarrow>
         (\<forall>x\<in>set its. Some (item_id x) \<noteq> first_selected (selected contextProps))"
    using that selectedItem_no_match [of contextProps]
    by (simp add: Space_handler_def)
  from prevented found cleared unchanged show ?thesis
    by (intro conjI impI) simp_all
qed

text \<open>
  C4 at three items with the selection \<^verbatim>\<open>[4, 3]\<close>: the key sets the empty slot to the
  first item whose id is 4, clears a slot that holds this item, and leaves the empty
  slot alone when the selection is an id that no item has.
\<close>

theorem C4_quick_view_toggle_witness:
  "items example_props = Some ([Path example_dir] @ Path example_file # [Object \<lparr>obj_id = 4\<rparr>])
   \<and> first_selected (selected example_props) = Some (item_id (Path example_file))
   \<and> item_id (Path example_dir) \<noteq> item_id (Path example_file)
   \<and> snd (Space_handler example_props (\<lparr>defaultPrevented = False\<rparr>, None))
       = Some (Path example_file)
   \<and> snd (Space_handler example_props (\<lparr>defaultPrevented = False\<rparr>, Some (Path example_file)))
       = None
   \<and> snd (Space_handler (example_props\<lparr>selected := Some (Scalar 99)\<rparr>)
            (\<lparr>defaultPrevented = False\<rparr>, None)) = None"
proof -
  have a: "items example_props
             = Some ([Path example_dir] @ Path example_file # [Object \<lparr>obj_id = 4\<rparr>])"
    by (simp add: example_props_def)
  have b: "first_selected (selected example_props) = Some (item_id (Path example_file))"
    by (simp add: example_props_def example_file_def)
  have c: "\<forall>x\<in>set [Path example_dir]. item_id x \<noteq> item_id (Path example_file)"
    by (simp add: example_dir_def example_file_def)
  have d: "\<forall>its. items (example_props\<lparr>selected := Some (Scalar 99)\<rparr>) = Some its \<longrightarrow>
             (\<forall>x\<in>set its. Some (item_id x)
                \<noteq> first_selected (selected (example_props\<lparr>selected := Some (Scalar 99)\<rparr>)))"
    by (simp add: example_props_def example_dir_def example_file_def)
  have "snd (Space_handler example_props (\<lparr>defaultPrevented = False\<rparr>, None))
          = Some (Path example_file)"
    using C4_quick_view_toggle [of example_props "\<lparr>defaultPrevented = False\<rparr>" None
        _ _ "[Path example_dir]" "Path example_file" "[Object \<lparr>obj_id = 4\<rparr>]"] a b c
    by simp
  moreover have "snd (Space_handler example_props
                     (\<lparr>defaultPrevented = False\<rparr>, Some (Path example_file))) = None"
    using C4_quick_view_toggle [of example_props "\<lparr>defaultPrevented = False\<rparr>"
        "Some (Path example_file)"]
    by simp
  moreover have "snd (Space_handler (example_props\<lparr>selected := Some (Scalar 99)\<rparr>)
            (\<lparr>defaultPrevented = False\<rparr>, None)) = None"
    using C4_quick_view_toggle [of "example_props\<lparr>selected := Some (Scalar 99)\<rparr>"
        "\<lparr>defaultPrevented = False\<rparr>" None] d
    by simp
  ultimately show ?thesis
    using a b c by simp
qed

text \<open>
  C5: the \<^verbatim>\<open>selectable\<close> of the context value that the dispatcher builds is the
  negation of its state \<^verbatim>\<open>isContextMenuOpen\<close>, also in every provider that a render
  returns. The state starts false, so \<^verbatim>\<open>selectable\<close> starts true; after an entry
  reports that its menu opened it is false, and after the report of the menu closing it
  is true again.
\<close>

theorem C5_selectable_negates_menu_flag:
  "selectable (ViewContext_value contextProps isContextMenuOpen) = (\<not> isContextMenuOpen)
   \<and> (ExplorerView layout emptyNotice contextProps isContextMenuOpen = Provider ctx mounted
        \<longrightarrow> selectable ctx = (\<not> isContextMenuOpen))
   \<and> selectable (ViewContext_value contextProps isContextMenuOpen_initial) = True
   \<and> selectable (ViewContext_value contextProps
        (onOpenChange_reports (reports @ [True]) state)) = False
   \<and> selectable (ViewContext_value contextProps
        (onOpenChange_reports (reports @ [True, False]) state)) = True"
proof -
  have "onOpenChange_reports (reports @ [True, False]) state = False"
    using onOpenChange_reports_last [of "reports @ [True]" False state] by simp
  moreover have "onOpenChange_reports (reports @ [True]) state = True"
    by (rule onOpenChange_reports_last)
  moreover have "selectable ctx = (\<not> isContextMenuOpen)"
    if "ExplorerView layout emptyNotice contextProps isContextMenuOpen = Provider ctx mounted"
    using that by (auto simp: ExplorerView_def ViewContext_value_def split: if_splits emptyNotice_prop.splits)
  ultimately show ?thesis
    by (simp add: ViewContext_value_def isContextMenuOpen_initial_def)
qed

text \<open>C5 at a render of the grid layout while a menu is open.\<close>

theorem C5_selectable_negates_menu_flag_witness:
  "ExplorerView LayoutGrid NoticeUndefined example_props True
     = Provider (ViewContext_value example_props True) [GridView]
   \<and> selectable (ViewContext_value example_props True) = False"
proof -
  have a: "ExplorerView LayoutGrid NoticeUndefined example_props True
     = Provider (ViewContext_value example_props True) [GridView]"
    by (simp add: ExplorerView_def example_props_def renderers_def)
  from C5_selectable_negates_menu_flag [of example_props True LayoutGrid NoticeUndefined
      "ViewContext_value example_props True" "[GridView]"] a
  show ?thesis by simp
qed

text \<open>
  C6: the \<^verbatim>\<open>multiSelect\<close> of the context value that the dispatcher builds is true
  exactly when the selection is list-shaped: true for the empty list and for a
  non-empty list, false for a scalar id and for an absent selection.
\<close>

theorem C6_multiSelect_iff_list_shaped:
  "(multiSelect (ViewContext_value contextProps isContextMenuOpen)
      \<longleftrightarrow> (\<exists>ids. selected contextProps = Some (Array ids)))
   \<and> multiSelect (ViewContext_value (contextProps\<lparr>selected := Some (Array [])\<rparr>)
        isContextMenuOpen) = True
   \<and> multiSelect (ViewContext_value (contextProps\<lparr>selected := Some (Array (a # ids))\<rparr>)
        isContextMenuOpen) = True
   \<and> multiSelect (ViewContext_value (contextProps\<lparr>selected := Some (Scalar a)\<rparr>)
        isContextMenuOpen) = False
   \<and> multiSelect (ViewContext_value (contextProps\<lparr>selected := None\<rparr>)
        isContextMenuOpen) = False"
proof -
  have "Array_isArray s \<longleftrightarrow> (\<exists>ids. s = Some (Array ids))" for s
    by (cases s rule: Array_isArray.cases) simp_all
  then show ?thesis
    by (simp add: ViewContext_value_def)
qed

text \<open>
  C7: a render of the dispatcher takes the empty-state arm exactly when the item
  collection is not \<^verbatim>\<open>null\<close> and has length 0. When the collection is \<^verbatim>\<open>null\<close> the render
  is the provider with the renderers of the layout mode: the grid view for
  \<^verbatim>\<open>grid\<close>, the list view for \<^verbatim>\<open>rows\<close>, the media view for \<^verbatim>\<open>media\<close>; no renderer
  is wired to \<^verbatim>\<open>columns\<close>.
\<close>

theorem C7_empty_state_iff_empty_list:
  "((\<exists>es. ExplorerView layout emptyNotice contextProps isContextMenuOpen = EmptyState es)
      \<longleftrightarrow> (\<exists>its. items contextProps = Some its \<and> length its = 0))
   \<and> ExplorerView layout emptyNotice (contextProps\<lparr>items := None\<rparr>) isContextMenuOpen
       = Provider (ViewContext_value (contextProps\<lparr>items := None\<rparr>) isContextMenuOpen)
           (renderers layout)
   \<and> renderers LayoutGrid = [GridView]
   \<and> renderers LayoutRows = [ListView]
   \<and> renderers LayoutMedia = [MediaView]
   \<and> renderers LayoutColumns = []"
proof -
  have "(\<exists>es. ExplorerView layout emptyNotice contextProps isContextMenuOpen = EmptyState es)
      \<longleftrightarrow> (\<exists>its. items contextProps = Some its \<and> length its = 0)"
    by (cases "items contextProps")
      (auto simp: ExplorerView_def split: emptyNotice_prop.splits)
  then show ?thesis
    by (simp add: ExplorerView_def renderers_def)
qed






text \<open>
  C9: reading the view context with no enclosing provider throws the error
  \<^verbatim>\<open>ViewContext.Provider not found!\<close>; it never returns a context. Under a provider
  with a value it returns that value.
\<close>

theorem C9_unbound_context_throws:
  "useExplorerViewContext [] = Inl (Error ''ViewContext.Provider not found!'')
   \<and> (\<forall>ctx. useExplorerViewContext [] \<noteq> Inr ctx)
   \<and> useExplorerViewContext (Some ctx # outer) = Inr ctx"
  by (simp add: useExplorerViewContext_def ViewContext_default_def)

end
